theory Spec2Isabelle
  imports Main "HOL-Library.Word"
begin

section \<open>The metrics store (package dbstorage) and its update handlers\<close>

text \<open>
  A shallow embedding of the PostgreSQL-backed metrics store and of the two HTTP update
  handlers.  The store talks to a database server through the sqlx and pgx drivers; both
  are outside the repository, so the server, the network and the clock are one explicit
  \<open>world\<close> value that every operation takes and returns.  A Go panic (a nil pointer
  dereference) is the outcome \<open>Panic\<close>; a Go \<open>error\<close> is a value, \<open>None\<close> for nil.
\<close>

subsection \<open>Go values\<close>

text \<open>
  \<open>int64\<close> is a 64-bit word read as two's complement.  A \<open>float64\<close> is carried as its
  64-bit pattern: the store only hands it to the driver and reads it back, it never
  computes with it.  A Go pointer \<open>*T\<close> is a \<open>T option\<close>, \<open>None\<close> for nil.
\<close>

type_synonym int64 = "64 word"
type_synonym float64 = "64 word"

text \<open>
  An error value is a chain: \<open>Wrap x e\<close> is the error \<open>x\<close> whose \<open>Unwrap()\<close> gives
  \<open>e\<close>.  Three kinds of link matter to the store: a \<open>*net.OpError\<close>, a
  \<open>*pgconn.PgError\<close> with its SQLSTATE \<open>Code\<close>, and anything else.
\<close>

datatype err_node =
    NetOpError string
  | PgError string
  | Opaque string

datatype go_error =
    Err err_node
  | Wrap err_node go_error

datatype 'a outcome = Returned 'a | Panic

text \<open>\<open>sql.ErrNoRows\<close>, the sentinel of database/sql for a query without a result row.\<close>

definition ErrNoRows :: go_error where
  "ErrNoRows = Err (Opaque ''sql: no rows in result set'')"

text \<open>
  \<open>errors.As(err, &opErr)\<close> and \<open>errors.As(err, &pgErr)\<close>: the first link of the chain
  of the wanted type, searched from the outside in.
\<close>

fun As_OpError :: "go_error \<Rightarrow> err_node option" where
  "As_OpError (Err (NetOpError s)) = Some (NetOpError s)"
| "As_OpError (Err x) = None"
| "As_OpError (Wrap (NetOpError s) e) = Some (NetOpError s)"
| "As_OpError (Wrap x e) = As_OpError e"

fun As_PgError :: "go_error \<Rightarrow> string option" where
  "As_PgError (Err (PgError c)) = Some c"
| "As_PgError (Err x) = None"
| "As_PgError (Wrap (PgError c) e) = Some c"
| "As_PgError (Wrap x e) = As_PgError e"

text \<open>
  \<open>pgerrcode.IsConnectionException\<close>: the codes of SQLSTATE class 08
  (connection_exception, connection_does_not_exist, connection_failure,
  sqlclient_unable_to_establish_sqlconnection,
  sqlserver_rejected_establishment_of_sqlconnection, transaction_resolution_unknown,
  protocol_violation).
\<close>

definition IsConnectionException :: "string \<Rightarrow> bool" where
  "IsConnectionException code \<longleftrightarrow>
     code \<in> set [''08000'', ''08003'', ''08006'', ''08001'', ''08004'', ''08007'', ''08P01'']"

text \<open>
  \<open>errs.NewDatabaseError(kind, err)\<close> is declared in a package that is not part of the
  sources at hand; the store only passes its result to the logger, so it is kept as a
  constructor holding the two arguments.
\<close>

datatype DatabaseError = NewDatabaseError string err_node

definition parseRetriableError :: "go_error option \<Rightarrow> bool \<times> DatabaseError option" where
  "parseRetriableError err =
     (case err of
        None \<Rightarrow> (False, None)
      | Some e \<Rightarrow>
          (case As_OpError e of
             Some opErr \<Rightarrow> (True, Some (NewDatabaseError ''net.OpError'' opErr))
           | None \<Rightarrow>
               (case As_PgError e of
                  None \<Rightarrow> (False, None)
                | Some code \<Rightarrow>
                    if \<not> IsConnectionException code then (False, None)
                    else (True, Some (NewDatabaseError ''pgconn.PgError'' (PgError code))))))"

subsection \<open>The database server, the network and the clock\<close>

text \<open>
  The statements the store sends, named after their text in the source:
  \<^item> \<open>Schema\<close>: \<^verbatim>\<open>CREATE TABLE IF NOT EXISTS metrics ("_id" SERIAL, "name" TEXT NOT NULL,
    "mtype" VARCHAR(12) NOT NULL DEFAULT 'gauge', "delta" BIGINT NOT NULL DEFAULT 0,
    "value" DOUBLE PRECISION NOT NULL DEFAULT 0.0,
    CONSTRAINT unique_id_mtype UNIQUE (name, mtype), PRIMARY KEY (_id))\<close>
  \<^item> \<open>GetGaugeMetricSQL\<close>: \<^verbatim>\<open>SELECT value FROM metrics WHERE name = :name AND mtype = 'gauge'\<close>
  \<^item> \<open>GetCounterMetricSQL\<close>: \<^verbatim>\<open>SELECT delta FROM metrics WHERE name = :name AND mtype = 'counter'\<close>
  \<^item> \<open>SetOrUpdateMetricSQL\<close>: \<^verbatim>\<open>INSERT INTO metrics (name, mtype, delta, value)
    VALUES (:name, :mtype, :delta, :value) ON CONFLICT (name, mtype) DO
    UPDATE SET delta = metrics.delta + excluded.delta, value = excluded.value\<close>
  \<^item> \<open>SelectAllSQL\<close>: \<^verbatim>\<open>SELECT name, mtype, delta, value FROM metrics\<close>
\<close>

datatype sql =
    Schema
  | GetGaugeMetricSQL
  | GetCounterMetricSQL
  | SetOrUpdateMetricSQL
  | SelectAllSQL

text \<open>
  A row of \<open>metrics\<close> without its surrogate \<open>_id\<close>, which no statement of the store
  reads.  The table is a list of rows in insertion order; \<open>UNIQUE (name, mtype)\<close> is kept
  by \<open>upsert\<close>, the only function that adds a row.
\<close>

record metric_row =
  row_name :: string
  row_mtype :: string
  row_delta :: int64
  row_value :: float64

type_synonym metrics_table = "metric_row list"

text \<open>Every call that goes to the server, in the order the store makes them.\<close>

datatype call =
    CallPing
  | CallExec sql
  | CallPrepare sql
  | CallStmtExec sql
  | CallStmtGet sql
  | CallSelect sql

text \<open>
  \<^item> \<open>relation\<close>: the table \<open>metrics\<close>, \<open>None\<close> while it does not exist;
  \<^item> \<open>script\<close>: the simulated faults.  Each call to the server takes the head of the
    script: \<open>Some e\<close> makes the call fail with \<open>e\<close> before the server has applied
    anything, \<open>None\<close> (or an empty script) lets the call through;
  \<^item> \<open>trace\<close>: the calls made so far;
  \<^item> \<open>sleeps\<close>: the seconds of every \<open>time.Sleep\<close> so far.
\<close>

record world =
  relation :: "metrics_table option"
  script :: "go_error option list"
  trace :: "call list"
  sleeps :: "nat list"

definition round_trip :: "call \<Rightarrow> world \<Rightarrow> go_error option \<times> world" where
  "round_trip c w =
     (case script w of
        [] \<Rightarrow> (None, w\<lparr>trace := trace w @ [c]\<rparr>)
      | f # fs \<Rightarrow> (f, w\<lparr>script := fs, trace := trace w @ [c]\<rparr>))"

definition time_Sleep :: "nat \<Rightarrow> world \<Rightarrow> world" where
  "time_Sleep seconds w = w\<lparr>sleeps := sleeps w @ [seconds]\<rparr>"

text \<open>The errors of the engine itself, by SQLSTATE.\<close>

definition undefined_table :: go_error where
  "undefined_table = Err (PgError ''42P01'')"

definition not_null_violation :: go_error where
  "not_null_violation = Err (PgError ''23502'')"

definition numeric_value_out_of_range :: go_error where
  "numeric_value_out_of_range = Err (PgError ''22003'')"

definition find_row :: "string \<Rightarrow> string \<Rightarrow> metrics_table \<Rightarrow> metric_row option" where
  "find_row n k t = find (\<lambda>r. row_name r = n \<and> row_mtype r = k) t"

text \<open>
  \<open>INSERT ... ON CONFLICT (name, mtype) DO UPDATE SET delta = metrics.delta +
  excluded.delta, value = excluded.value\<close> on an existing table with non-null arguments.
  \<open>BIGINT\<close> addition does not wrap: a sum outside the 64-bit range is the engine's
  error 22003 and the row stays as it was.
\<close>

fun upsert :: "string \<Rightarrow> string \<Rightarrow> int64 \<Rightarrow> float64 \<Rightarrow> metrics_table \<Rightarrow> go_error + metrics_table" where
  "upsert n k d v [] = Inr [\<lparr>row_name = n, row_mtype = k, row_delta = d, row_value = v\<rparr>]"
| "upsert n k d v (r # t) =
     (if row_name r = n \<and> row_mtype r = k then
        (if sint (row_delta r) + sint d < - (2 ^ 63) \<or> 2 ^ 63 \<le> sint (row_delta r) + sint d
         then Inl numeric_value_out_of_range
         else Inr (r\<lparr>row_delta := row_delta r + d, row_value := v\<rparr> # t))
      else (case upsert n k d v t of Inl e \<Rightarrow> Inl e | Inr t' \<Rightarrow> Inr (r # t')))"

text \<open>
  The upsert as the engine runs it: the table must exist, and a NULL for \<open>delta\<close> or
  \<open>value\<close> (a nil pointer bound as argument) breaks the column's \<open>NOT NULL\<close>.
\<close>

definition engine_upsert ::
  "string \<Rightarrow> string \<Rightarrow> int64 option \<Rightarrow> float64 option \<Rightarrow> metrics_table option
     \<Rightarrow> go_error + metrics_table" where
  "engine_upsert n k delta val rel =
     (case rel of
        None \<Rightarrow> Inl undefined_table
      | Some t \<Rightarrow>
          (case delta of
             None \<Rightarrow> Inl not_null_violation
           | Some d \<Rightarrow>
               (case val of
                  None \<Rightarrow> Inl not_null_violation
                | Some v \<Rightarrow> upsert n k d v t)))"

subsection \<open>The driver\<close>

text \<open>
  A \<open>*sqlx.NamedStmt\<close> is \<open>None\<close> when nil, else the statement it was compiled from.
  sqlx's \<open>ExecContext\<close> and \<open>GetContext\<close> read the receiver's fields first, so on a nil
  receiver they panic before anything is sent.
\<close>

type_synonym NamedStmt = "sql option"

definition db_PingContext :: "world \<Rightarrow> go_error option \<times> world" where
  "db_PingContext w = round_trip CallPing w"

text \<open>\<open>db.ExecContext(ctx, schema)\<close>: creates the table unless it exists.\<close>

definition db_ExecContext_schema :: "world \<Rightarrow> go_error option \<times> world" where
  "db_ExecContext_schema w =
     (case round_trip (CallExec Schema) w of
        (Some e, w') \<Rightarrow> (Some e, w')
      | (None, w') \<Rightarrow>
          (None, w'\<lparr>relation := (case relation w' of None \<Rightarrow> Some [] | Some t \<Rightarrow> Some t)\<rparr>))"

text \<open>\<open>db.PrepareNamedContext(ctx, sql)\<close>: the server parses the statement against the table.\<close>

definition db_PrepareNamedContext :: "sql \<Rightarrow> world \<Rightarrow> (NamedStmt \<times> go_error option) \<times> world" where
  "db_PrepareNamedContext q w =
     (case round_trip (CallPrepare q) w of
        (Some e, w') \<Rightarrow> ((None, Some e), w')
      | (None, w') \<Rightarrow>
          (case relation w' of
             None \<Rightarrow> ((None, Some undefined_table), w')
           | Some t \<Rightarrow> ((Some q, None), w')))"

text \<open>
  \<open>stmt.ExecContext(ctx, {name, mtype, delta, value})\<close> of the upsert statement.  A
  handle of another statement never reaches this call in the store; it is given the
  driver's complaint without a call to the server.
\<close>

definition stmt_ExecContext ::
  "NamedStmt \<Rightarrow> string \<Rightarrow> string \<Rightarrow> int64 option \<Rightarrow> float64 option \<Rightarrow> world
     \<Rightarrow> go_error option outcome \<times> world" where
  "stmt_ExecContext stmt n k delta val w =
     (case stmt of
        None \<Rightarrow> (Panic, w)
      | Some q \<Rightarrow>
          (if q \<noteq> SetOrUpdateMetricSQL then (Returned (Some (Err (Opaque ''sqlx: bad statement''))), w)
           else
             (case round_trip (CallStmtExec q) w of
                (Some e, w') \<Rightarrow> (Returned (Some e), w')
              | (None, w') \<Rightarrow>
                  (case engine_upsert n k delta val (relation w') of
                     Inl e \<Rightarrow> (Returned (Some e), w')
                   | Inr t' \<Rightarrow> (Returned None, w'\<lparr>relation := Some t'\<rparr>)))))"

text \<open>
  \<open>stmt.GetContext(ctx, &value, {name})\<close> of one of the two read statements: the column
  \<open>col\<close> of the row of kind \<open>k\<close>, scanned into \<open>value\<close>.  Without a row the driver
  returns \<open>sql.ErrNoRows\<close> and leaves \<open>value\<close> as it was, as it does on every error.
\<close>

definition stmt_GetContext ::
  "NamedStmt \<Rightarrow> sql \<Rightarrow> string \<Rightarrow> (metric_row \<Rightarrow> 64 word) \<Rightarrow> 64 word option \<Rightarrow> string \<Rightarrow> world
     \<Rightarrow> (64 word option \<times> go_error option) outcome \<times> world" where
  "stmt_GetContext stmt expected k col dest n w =
     (case stmt of
        None \<Rightarrow> (Panic, w)
      | Some q \<Rightarrow>
          (if q \<noteq> expected then (Returned (dest, Some (Err (Opaque ''sqlx: bad statement''))), w)
           else
             (case round_trip (CallStmtGet q) w of
                (Some e, w') \<Rightarrow> (Returned (dest, Some e), w')
              | (None, w') \<Rightarrow>
                  (case relation w' of
                     None \<Rightarrow> (Returned (dest, Some undefined_table), w')
                   | Some t \<Rightarrow>
                       (case find_row n k t of
                          None \<Rightarrow> (Returned (dest, Some ErrNoRows), w')
                        | Some r \<Rightarrow> (Returned (Some (col r), None), w'))))))"

text \<open>
  \<open>db.SelectContext(ctx, &metrics, "SELECT name, mtype, delta, value FROM metrics")\<close>.
  Modelled from the spec: \<open>models.MetricsValue\<close> is declared outside the sources at
  hand; the spec has GetAll read every row with all four columns, so a result row is a
  \<open>metric_row\<close>.
\<close>

definition db_SelectContext_all ::
  "metric_row list \<Rightarrow> world \<Rightarrow> (metric_row list \<times> go_error option) \<times> world" where
  "db_SelectContext_all dest w =
     (case round_trip (CallSelect SelectAllSQL) w of
        (Some e, w') \<Rightarrow> ((dest, Some e), w')
      | (None, w') \<Rightarrow>
          (case relation w' of
             None \<Rightarrow> ((dest, Some undefined_table), w')
           | Some t \<Rightarrow> ((dest @ t, None), w')))"

subsection \<open>The store\<close>

definition maximumNumberOfRetries :: "nat list" where
  "maximumNumberOfRetries = [1, 3, 5]"

record prepares =
  getGaugeMetric :: NamedStmt
  getCounterMetric :: NamedStmt
  setOrUpdateMetric :: NamedStmt

text \<open>
  \<open>databaseStorage\<close>: the pool \<open>db\<close> is the world, the logger is not modelled, so
  the struct is its statement set.
\<close>

type_synonym databaseStorage = prepares

definition no_prepares :: prepares where
  "no_prepares = \<lparr>getGaugeMetric = None, getCounterMetric = None, setOrUpdateMetric = None\<rparr>"

text \<open>
  The loop that SetGauge, AddCounter, GetGauge, GetCounter and GetAll each spell out:
  \<^verbatim>\<open>for _, timeSleep := range maximumNumberOfRetries {
      <result>, err = <one call of the driver>
      ok, parsedErr := parseRetriableError(err)
      if !ok { return }
      log.Errorf(...); time.Sleep(time.Duration(timeSleep) * time.Second)
  }
  return\<close>
  \<open>res\<close> holds the named results \<open>(value, err)\<close>, which the \<open>return\<close> after the loop
  hands back as the last attempt left them.
\<close>

fun retry_range ::
  "nat list \<Rightarrow> ('a \<Rightarrow> world \<Rightarrow> ('a \<times> go_error option) outcome \<times> world)
     \<Rightarrow> 'a \<times> go_error option \<Rightarrow> world \<Rightarrow> ('a \<times> go_error option) outcome \<times> world" where
  "retry_range [] attempt res w = (Returned res, w)"
| "retry_range (timeSleep # rest) attempt res w =
     (case attempt (fst res) w of
        (Panic, w') \<Rightarrow> (Panic, w')
      | (Returned res', w') \<Rightarrow>
          (if \<not> fst (parseRetriableError (snd res')) then (Returned res', w')
           else retry_range rest attempt res' (time_Sleep timeSleep w')))"

definition Ping :: "databaseStorage \<Rightarrow> world \<Rightarrow> go_error option \<times> world" where
  "Ping dbStorage w = db_PingContext w"

definition preparesData :: "(string \<times> sql) list" where
  "preparesData =
     [(''getGaugeMetric'', GetGaugeMetricSQL),
      (''getCounterMetric'', GetCounterMetricSQL),
      (''setOrUpdateMetric'', SetOrUpdateMetricSQL)]"

text \<open>
  \<open>buildPrepares\<close> ranges over a Go map, whose iteration order the runtime picks anew
  each time: \<open>keys\<close> is the order of this run.
\<close>

fun buildPrepares_range ::
  "string list \<Rightarrow> databaseStorage \<Rightarrow> world \<Rightarrow> (go_error option \<times> databaseStorage) \<times> world" where
  "buildPrepares_range [] dbStorage w = ((None, dbStorage), w)"
| "buildPrepares_range (key # keys) dbStorage w =
     (case map_of preparesData key of
        None \<Rightarrow> buildPrepares_range keys dbStorage w
      | Some q \<Rightarrow>
          (case db_PrepareNamedContext q w of
             ((p, Some err), w') \<Rightarrow> ((Some err, dbStorage), w')
           | ((p, None), w') \<Rightarrow>
               buildPrepares_range keys
                 (if key = ''getGaugeMetric'' then dbStorage\<lparr>getGaugeMetric := p\<rparr>
                  else if key = ''getCounterMetric'' then dbStorage\<lparr>getCounterMetric := p\<rparr>
                  else if key = ''setOrUpdateMetric'' then dbStorage\<lparr>setOrUpdateMetric := p\<rparr>
                  else dbStorage) w'))"

definition buildPrepares ::
  "string list \<Rightarrow> databaseStorage \<Rightarrow> world \<Rightarrow> (go_error option \<times> databaseStorage) \<times> world" where
  "buildPrepares keys dbStorage w = buildPrepares_range keys dbStorage w"

text \<open>\<open>New\<close> returns \<open>(*databaseStorage, error)\<close>; a nil store is \<open>None\<close>.\<close>

definition New :: "string list \<Rightarrow> world \<Rightarrow> (databaseStorage option \<times> go_error option) \<times> world" where
  "New keys w =
     (let dbStorage = no_prepares in
      case Ping dbStorage w of
        (Some err, w1) \<Rightarrow> ((Some dbStorage, None), w1)
      | (None, w1) \<Rightarrow>
          (case db_ExecContext_schema w1 of
             (Some err, w2) \<Rightarrow> ((None, Some err), w2)
           | (None, w2) \<Rightarrow>
               (case buildPrepares keys dbStorage w2 of
                  ((Some err, dbStorage'), w3) \<Rightarrow> ((None, Some err), w3)
                | ((None, dbStorage'), w3) \<Rightarrow> ((Some dbStorage', None), w3))))"

text \<open>
  The first statement of the loop body of SetGauge and AddCounter: the upsert through the
  prepared statement, its \<open>sql.Result\<close> dropped.
\<close>

definition upsert_attempt ::
  "NamedStmt \<Rightarrow> string \<Rightarrow> string \<Rightarrow> int64 option \<Rightarrow> float64 option \<Rightarrow> unit \<Rightarrow> world
     \<Rightarrow> (unit \<times> go_error option) outcome \<times> world" where
  "upsert_attempt stmt n k delta val u w =
     (case stmt_ExecContext stmt n k delta val w of
        (Panic, w') \<Rightarrow> (Panic, w')
      | (Returned err, w') \<Rightarrow> (Returned ((), err), w'))"

text \<open>The named result \<open>err\<close> of a method that returns only an error.\<close>

definition only_err ::
  "(unit \<times> go_error option) outcome \<times> world \<Rightarrow> go_error option outcome \<times> world" where
  "only_err r = (case r of (Panic, w') \<Rightarrow> (Panic, w') | (Returned res, w') \<Rightarrow> (Returned (snd res), w'))"

definition SetGauge ::
  "databaseStorage \<Rightarrow> string \<Rightarrow> float64 option \<Rightarrow> world \<Rightarrow> go_error option outcome \<times> world" where
  "SetGauge dbStorage name val w =
     only_err (retry_range maximumNumberOfRetries
       (upsert_attempt (setOrUpdateMetric dbStorage) name ''gauge'' (Some 0) val) ((), None) w)"

definition AddCounter ::
  "databaseStorage \<Rightarrow> string \<Rightarrow> int64 option \<Rightarrow> world \<Rightarrow> go_error option outcome \<times> world" where
  "AddCounter dbStorage name val w =
     only_err (retry_range maximumNumberOfRetries
       (upsert_attempt (setOrUpdateMetric dbStorage) name ''counter'' val (Some 0)) ((), None) w)"

definition GetGauge ::
  "databaseStorage \<Rightarrow> string \<Rightarrow> world \<Rightarrow> (float64 option \<times> go_error option) outcome \<times> world" where
  "GetGauge dbStorage name w =
     retry_range maximumNumberOfRetries
       (\<lambda>val. stmt_GetContext (getGaugeMetric dbStorage) GetGaugeMetricSQL ''gauge'' row_value val name)
       (None, None) w"

definition GetCounter ::
  "databaseStorage \<Rightarrow> string \<Rightarrow> world \<Rightarrow> (int64 option \<times> go_error option) outcome \<times> world" where
  "GetCounter dbStorage name w =
     retry_range maximumNumberOfRetries
       (\<lambda>val. stmt_GetContext (getCounterMetric dbStorage) GetCounterMetricSQL ''counter'' row_delta val name)
       (None, None) w"

definition select_attempt ::
  "metric_row list \<Rightarrow> world \<Rightarrow> (metric_row list \<times> go_error option) outcome \<times> world" where
  "select_attempt metrics w = (case db_SelectContext_all metrics w of (res, w') \<Rightarrow> (Returned res, w'))"

definition GetAll ::
  "databaseStorage \<Rightarrow> world \<Rightarrow> (metric_row list \<times> go_error option) outcome \<times> world" where
  "GetAll dbStorage w = retry_range maximumNumberOfRetries select_attempt ([], None) w"

text \<open>
  The statement set as a \<open>buildPrepares\<close> that went through leaves it, and the row of
  a name and a kind as the server holds it.
\<close>

definition all_prepared :: prepares where
  "all_prepared =
     \<lparr>getGaugeMetric = Some GetGaugeMetricSQL,
      getCounterMetric = Some GetCounterMetricSQL,
      setOrUpdateMetric = Some SetOrUpdateMetricSQL\<rparr>"

definition row_of :: "string \<Rightarrow> string \<Rightarrow> world \<Rightarrow> metric_row option" where
  "row_of n k w = (case relation w of None \<Rightarrow> None | Some t \<Rightarrow> find_row n k t)"

text \<open>
  The world after \<open>k\<close> attempts of the call \<open>c\<close> that each failed with a scripted fault
  and were each followed by the sleep of their schedule entry; and whether the next call
  of a world gets through or fails with an error that is not retriable.
\<close>

definition after_faults :: "nat \<Rightarrow> call \<Rightarrow> world \<Rightarrow> world" where
  "after_faults k c w =
     w\<lparr>script := drop k (script w), trace := trace w @ replicate k c,
       sleeps := sleeps w @ take k maximumNumberOfRetries\<rparr>"

definition first_call_final :: "world \<Rightarrow> bool" where
  "first_call_final w = (case script w of [] \<Rightarrow> True | f # fs \<Rightarrow> \<not> fst (parseRetriableError f))"

subsection \<open>The update handlers (package handlers)\<close>

text \<open>
  The handlers see the store through the interface \<open>models.Storage\<close>, whose methods
  take and return plain values here (\<open>SetGauge(id, value)\<close> with a \<open>float64\<close>,
  \<open>GetCounter\<close> giving an \<open>int64\<close>).  The interface, \<open>models.MetricsUpdate\<close>, the
  two kind constants and the helpers \<open>validateContentType\<close>, \<open>handleBadRequest\<close> and
  \<open>validateAndShouldBindJSON\<close> are declared outside the sources at hand.  The helpers
  and the storage are parameters of the model, as are \<open>strconv.ParseFloat\<close> and
  \<open>strconv.ParseInt\<close>; \<open>'s\<close> is the state behind the storage.
\<close>

text \<open>
  Modelled from the spec: \<open>models.GaugeType\<close> and \<open>models.CounterType\<close>, the two
  kinds \<open>gauge\<close> and \<open>counter\<close>.
\<close>

definition GaugeType :: string where
  "GaugeType = ''gauge''"

definition CounterType :: string where
  "CounterType = ''counter''"

text \<open>
  Modelled from the handler's use of it: \<open>models.MetricsUpdate\<close> with the fields the
  handler reads and writes; \<open>Delta\<close> and \<open>Value\<close> are pointers.
\<close>

record MetricsUpdate =
  ID :: string
  MType :: string
  Delta :: "int64 option"
  Value :: "float64 option"

datatype json_body = BodyObject MetricsUpdate | BodyResponse string

text \<open>
  What the handlers use of \<open>*gin.Context\<close>: the path parameters, the status and the
  body of the response, and whether the chain was aborted.  \<open>request\<close> stands for the
  rest of the request, which only the helpers read.
\<close>

record gin_Context =
  request :: string
  params :: "(string \<times> string) list"
  resp_status :: nat
  resp_body :: "json_body option"
  aborted :: bool

definition Param :: "gin_Context \<Rightarrow> string \<Rightarrow> string" where
  "Param ctx key = (case map_of (params ctx) key of None \<Rightarrow> [] | Some v \<Rightarrow> v)"

definition Status :: "nat \<Rightarrow> gin_Context \<Rightarrow> gin_Context" where
  "Status code ctx = ctx\<lparr>resp_status := code\<rparr>"

definition JSON :: "nat \<Rightarrow> json_body \<Rightarrow> gin_Context \<Rightarrow> gin_Context" where
  "JSON code obj ctx = ctx\<lparr>resp_status := code, resp_body := Some obj\<rparr>"

definition Abort :: "gin_Context \<Rightarrow> gin_Context" where
  "Abort ctx = ctx\<lparr>aborted := True\<rparr>"

definition StatusOK :: nat where
  "StatusOK = 200"

definition StatusNotFound :: nat where
  "StatusNotFound = 404"

record 's Storage =
  storage_SetGauge :: "string \<Rightarrow> float64 \<Rightarrow> 's \<Rightarrow> go_error option outcome \<times> 's"
  storage_AddCounter :: "string \<Rightarrow> int64 \<Rightarrow> 's \<Rightarrow> go_error option outcome \<times> 's"
  storage_GetCounter :: "string \<Rightarrow> 's \<Rightarrow> (int64 \<times> go_error option) outcome \<times> 's"

record 's baseHandler =
  storage :: "'s Storage"
  validateContentType :: "gin_Context \<Rightarrow> string \<Rightarrow> bool \<Rightarrow> bool"
  handleBadRequest :: "gin_Context \<Rightarrow> gin_Context"
  validateAndShouldBindJSON ::
    "gin_Context \<Rightarrow> MetricsUpdate \<times> string option \<times> nat \<times> go_error option"

record strconv =
  ParseFloat :: "string \<Rightarrow> float64 \<times> go_error option"
  ParseInt :: "string \<Rightarrow> int64 \<times> go_error option"

definition UpdateByURI ::
  "'s baseHandler \<Rightarrow> strconv \<Rightarrow> gin_Context \<Rightarrow> 's \<Rightarrow> gin_Context outcome \<times> 's" where
  "UpdateByURI bh sc ctx s =
     (if \<not> validateContentType bh ctx ''text/plain'' True then (Returned (handleBadRequest bh ctx), s)
      else
        (let id = Param ctx ''name'' in
         if id = [] then (Returned (Abort (Status StatusNotFound ctx)), s)
         else
           (let storageType = Param ctx ''type'' in
            if storageType = GaugeType then
              (case ParseFloat sc (Param ctx ''value'') of
                 (v, Some err) \<Rightarrow> (Returned (handleBadRequest bh ctx), s)
               | (v, None) \<Rightarrow>
                   (case storage_SetGauge (storage bh) id v s of
                      (Panic, s') \<Rightarrow> (Panic, s')
                    | (Returned discarded, s') \<Rightarrow> (Returned (Abort (Status StatusOK ctx)), s')))
            else if storageType = CounterType then
              (case ParseInt sc (Param ctx ''value'') of
                 (v, Some err) \<Rightarrow> (Returned (handleBadRequest bh ctx), s)
               | (v, None) \<Rightarrow>
                   (case storage_AddCounter (storage bh) id v s of
                      (Panic, s') \<Rightarrow> (Panic, s')
                    | (Returned discarded, s') \<Rightarrow> (Returned (Abort (Status StatusOK ctx)), s')))
            else (Returned (handleBadRequest bh ctx), s))))"

text \<open>
  In \<open>UpdateByBody\<close> the arguments \<open>*obj.Value\<close> and \<open>*obj.Delta\<close> dereference a
  pointer: on nil the handler panics before it calls the storage.
\<close>

definition UpdateByBody ::
  "'s baseHandler \<Rightarrow> gin_Context \<Rightarrow> 's \<Rightarrow> gin_Context outcome \<times> 's" where
  "UpdateByBody bh ctx s =
     (if \<not> validateContentType bh ctx ''application/json'' False then (Returned (handleBadRequest bh ctx), s)
      else
        (case validateAndShouldBindJSON bh ctx of
           (obj, response, statusCode, Some err) \<Rightarrow>
             (case response of
                None \<Rightarrow> (Returned (Abort (Status statusCode ctx)), s)
              | Some r \<Rightarrow> (Returned (Abort (JSON statusCode (BodyResponse r) ctx)), s))
         | (obj, response, statusCode, None) \<Rightarrow>
             if MType obj = GaugeType then
               (case Value obj of
                  None \<Rightarrow> (Panic, s)
                | Some v \<Rightarrow>
                    (case storage_SetGauge (storage bh) (ID obj) v s of
                       (Panic, s') \<Rightarrow> (Panic, s')
                     | (Returned discarded, s') \<Rightarrow>
                         (Returned (Abort (JSON StatusOK (BodyObject obj) ctx)), s')))
             else if MType obj = CounterType then
               (case Delta obj of
                  None \<Rightarrow> (Panic, s)
                | Some d \<Rightarrow>
                    (case storage_AddCounter (storage bh) (ID obj) d s of
                       (Panic, s') \<Rightarrow> (Panic, s')
                     | (Returned discarded, s') \<Rightarrow>
                         (case storage_GetCounter (storage bh) (ID obj) s' of
                            (Panic, s'') \<Rightarrow> (Panic, s'')
                          | (Returned (counter, Some err), s'') \<Rightarrow>
                              (Returned (Abort (JSON StatusOK (BodyObject obj) ctx)), s'')
                          | (Returned (counter, None), s'') \<Rightarrow>
                              (Returned (Abort (JSON StatusOK (BodyObject (obj\<lparr>Delta := Some counter\<rparr>)) ctx)), s''))))
             else (Returned (Abort (JSON StatusOK (BodyObject obj) ctx)), s)))"

text \<open>
  The store of package dbstorage behind the handlers' interface: a value goes in as a
  pointer to it, and a counter comes out as the \<open>int64\<close> pointed to (0 for nil).
\<close>

definition dbstorage_Storage :: "databaseStorage \<Rightarrow> world Storage" where
  "dbstorage_Storage dbStorage =
     \<lparr>storage_SetGauge = (\<lambda>name v. SetGauge dbStorage name (Some v)),
      storage_AddCounter = (\<lambda>name d. AddCounter dbStorage name (Some d)),
      storage_GetCounter = (\<lambda>name w.
         case GetCounter dbStorage name w of
           (Panic, w') \<Rightarrow> (Panic, w')
         | (Returned (p, err), w') \<Rightarrow> (Returned (case p of None \<Rightarrow> 0 | Some c \<Rightarrow> c, err), w'))\<rparr>"

section \<open>Properties\<close>

subsection \<open>The classifier\<close>

lemma parseRetriableError_nil: "parseRetriableError None = (False, None)"
  by (simp add: parseRetriableError_def)

text \<open>
  C6.  The classifier decides by these rules, in this order: nil is not retriable; an
  error with a \<open>*net.OpError\<close> in its chain is retriable; otherwise an error with a
  \<open>*pgconn.PgError\<close> in its chain is retriable exactly when the code of the first such
  link is of the connection-exception class; every other error is not retriable.
\<close>

theorem classifier_rules:
  "fst (parseRetriableError err) \<longleftrightarrow>
     (\<exists>e. err = Some e \<and>
        ((\<exists>opErr. As_OpError e = Some opErr) \<or>
         (As_OpError e = None \<and> (\<exists>code. As_PgError e = Some code \<and> IsConnectionException code))))"
  by (auto simp: parseRetriableError_def split: option.splits)

text \<open>
  The rules at work: a broken pipe wrapped by the driver and an engine-reported
  connection failure are retriable, also when a constraint violation wraps the network
  fault; a unique violation, a syntax error, a wrong data type and \<open>sql.ErrNoRows\<close> are
  not, and neither is nil.
\<close>

theorem classifier_rules_witness:
  "fst (parseRetriableError (Some (Wrap (Opaque ''write failed'') (Err (NetOpError ''broken pipe''))))) \<and>
   fst (parseRetriableError (Some (Err (PgError ''08006'')))) \<and>
   fst (parseRetriableError (Some (Wrap (PgError ''23505'') (Err (NetOpError ''connection reset''))))) \<and>
   \<not> fst (parseRetriableError (Some (Err (PgError ''23505'')))) \<and>
   \<not> fst (parseRetriableError (Some (Err (PgError ''42601'')))) \<and>
   \<not> fst (parseRetriableError (Some (Err (PgError ''22P02'')))) \<and>
   \<not> fst (parseRetriableError (Some ErrNoRows)) \<and>
   \<not> fst (parseRetriableError None)"
  unfolding classifier_rules by (simp add: IsConnectionException_def ErrNoRows_def)

subsection \<open>The engine and the driver\<close>

lemma upsert_error: "upsert n k d v t = Inl e \<Longrightarrow> e = numeric_value_out_of_range"
  by (induction t) (auto split: if_splits sum.splits)

lemma engine_error_fatal:
  "engine_upsert n k d v rel = Inl e \<Longrightarrow> \<not> fst (parseRetriableError (Some e))"
  by (auto simp: engine_upsert_def parseRetriableError_def undefined_table_def
      not_null_violation_def numeric_value_out_of_range_def IsConnectionException_def
      dest!: upsert_error split: option.splits)

lemma round_trip_fault:
  "script w = f # fs \<Longrightarrow> round_trip c w = (f, w\<lparr>script := fs, trace := trace w @ [c]\<rparr>)"
  by (simp add: round_trip_def)

lemma round_trip_through:
  "script w = [] \<Longrightarrow> round_trip c w = (None, w\<lparr>trace := trace w @ [c]\<rparr>)"
  by (simp add: round_trip_def)

lemma round_trip_frame:
  "round_trip c w = (f, w') \<Longrightarrow>
     relation w' = relation w \<and> sleeps w' = sleeps w \<and> trace w' = trace w @ [c] \<and>
     script w' = tl (script w)"
  by (auto simp: round_trip_def split: list.splits)

lemma upsert_attempt_fault:
  "script w = Some e # fs \<Longrightarrow>
   upsert_attempt (Some SetOrUpdateMetricSQL) n k d v u w =
     (Returned (u, Some e), w\<lparr>script := fs, trace := trace w @ [CallStmtExec SetOrUpdateMetricSQL]\<rparr>)"
  by (simp add: upsert_attempt_def stmt_ExecContext_def round_trip_fault)

lemma get_attempt_fault:
  "script w = Some e # fs \<Longrightarrow>
   stmt_GetContext (Some q) q k col dest n w =
     (Returned (dest, Some e), w\<lparr>script := fs, trace := trace w @ [CallStmtGet q]\<rparr>)"
  by (simp add: stmt_GetContext_def round_trip_fault)

lemma select_attempt_fault:
  "script w = Some e # fs \<Longrightarrow>
   select_attempt dest w =
     (Returned (dest, Some e), w\<lparr>script := fs, trace := trace w @ [CallSelect SelectAllSQL]\<rparr>)"
  by (simp add: select_attempt_def db_SelectContext_all_def round_trip_fault)

subsection \<open>The retry loop\<close>

lemma retry_range_faults:
  assumes faulty: "\<And>val w e fs. script w = Some e # fs \<Longrightarrow>
            attempt val w = (Returned (val, Some e), w\<lparr>script := fs, trace := trace w @ [c]\<rparr>)"
  shows "script w = map Some es @ fs \<Longrightarrow> length es = length sched \<Longrightarrow> es \<noteq> [] \<Longrightarrow>
         \<forall>e\<in>set es. fst (parseRetriableError (Some e)) \<Longrightarrow>
         retry_range sched attempt (val, err0) w =
           (Returned (val, Some (last es)),
            w\<lparr>script := fs, trace := trace w @ replicate (length sched) c, sleeps := sleeps w @ sched\<rparr>)"
proof (induction sched arbitrary: es w err0)
  case Nil
  then show ?case by simp
next
  case (Cons t ts)
  then obtain e es' where es: "es = e # es'" by (cases es) auto
  with Cons.prems have sc: "script w = Some e # (map Some es' @ fs)" by simp
  let ?w1 = "w\<lparr>script := map Some es' @ fs, trace := trace w @ [c]\<rparr>"
  have a: "attempt val w = (Returned (val, Some e), ?w1)" using faulty [OF sc] .
  have r: "fst (parseRetriableError (Some e))" using Cons.prems es by simp
  show ?case
  proof (cases "es' = []")
    case True
    with Cons.prems es have "ts = []" by simp
    with a r True es show ?thesis by (simp add: time_Sleep_def)
  next
    case False
    have "retry_range ts attempt (val, Some e) (time_Sleep t ?w1) =
           (Returned (val, Some (last es')),
            (time_Sleep t ?w1)\<lparr>script := fs,
               trace := trace (time_Sleep t ?w1) @ replicate (length ts) c,
               sleeps := sleeps (time_Sleep t ?w1) @ ts\<rparr>)"
      using Cons.prems es False by (intro Cons.IH) (auto simp: time_Sleep_def)
    with a r False es show ?thesis by (simp add: time_Sleep_def replicate_append_same)
  qed
qed

lemma retry_three_faults:
  assumes faulty: "\<And>val w e fs. script w = Some e # fs \<Longrightarrow>
            attempt val w = (Returned (val, Some e), w\<lparr>script := fs, trace := trace w @ [c]\<rparr>)"
    and "script w = Some e1 # Some e2 # Some e3 # fs"
    and "fst (parseRetriableError (Some e1))" "fst (parseRetriableError (Some e2))"
      "fst (parseRetriableError (Some e3))"
  shows "retry_range maximumNumberOfRetries attempt (val, err0) w =
           (Returned (val, Some e3),
            w\<lparr>script := fs, trace := trace w @ [c, c, c], sleeps := sleeps w @ [1, 3, 5]\<rparr>)"
proof -
  have "retry_range [1, 3, 5] attempt (val, err0) w =
          (Returned (val, Some (last [e1, e2, e3])),
           w\<lparr>script := fs, trace := trace w @ replicate (length [1, 3, 5 :: nat]) c,
              sleeps := sleeps w @ [1, 3, 5]\<rparr>)"
    by (rule retry_range_faults [OF faulty]) (use assms in simp_all)
  then show ?thesis
    by (simp add: maximumNumberOfRetries_def numeral_3_eq_3)
qed

text \<open>
  C1.  When all three attempts of an operation fail with a retriable fault, the
  operation makes exactly three calls, one per entry of the schedule, and returns the
  error of the last one.  It has then slept after every attempt, the last one included:
  1, 3 and 5 seconds, 9 in all, where the claim has the sum without the final entry, 4.
\<close>

theorem persistent_fault_exhausts_schedule:
  assumes "script w = Some e1 # Some e2 # Some e3 # fs"
    and "fst (parseRetriableError (Some e1))" "fst (parseRetriableError (Some e2))"
      "fst (parseRetriableError (Some e3))"
  shows
    "SetGauge all_prepared n v w =
       (Returned (Some e3),
        w\<lparr>script := fs, trace := trace w @ replicate 3 (CallStmtExec SetOrUpdateMetricSQL),
           sleeps := sleeps w @ [1, 3, 5]\<rparr>) \<and>
     AddCounter all_prepared n d w =
       (Returned (Some e3),
        w\<lparr>script := fs, trace := trace w @ replicate 3 (CallStmtExec SetOrUpdateMetricSQL),
           sleeps := sleeps w @ [1, 3, 5]\<rparr>) \<and>
     GetGauge all_prepared n w =
       (Returned (None, Some e3),
        w\<lparr>script := fs, trace := trace w @ replicate 3 (CallStmtGet GetGaugeMetricSQL),
           sleeps := sleeps w @ [1, 3, 5]\<rparr>) \<and>
     GetCounter all_prepared n w =
       (Returned (None, Some e3),
        w\<lparr>script := fs, trace := trace w @ replicate 3 (CallStmtGet GetCounterMetricSQL),
           sleeps := sleeps w @ [1, 3, 5]\<rparr>) \<and>
     GetAll dbStorage w =
       (Returned ([], Some e3),
        w\<lparr>script := fs, trace := trace w @ replicate 3 (CallSelect SelectAllSQL),
           sleeps := sleeps w @ [1, 3, 5]\<rparr>) \<and>
     sum_list (sleeps (snd (SetGauge all_prepared n v w))) = sum_list (sleeps w) + 9"
  using assms
  by (simp add: SetGauge_def AddCounter_def GetGauge_def GetCounter_def GetAll_def
      all_prepared_def only_err_def retry_three_faults [OF upsert_attempt_fault]
      retry_three_faults [OF get_attempt_fault] retry_three_faults [OF select_attempt_fault]
      numeral_3_eq_3)

theorem persistent_fault_exhausts_schedule_witness:
  "SetGauge all_prepared ''temp'' (Some 5)
     \<lparr>relation = Some [], script = replicate 3 (Some (Err (NetOpError ''connection reset''))),
      trace = [], sleeps = []\<rparr> =
   (Returned (Some (Err (NetOpError ''connection reset''))),
    \<lparr>relation = Some [], script = [],
     trace = replicate 3 (CallStmtExec SetOrUpdateMetricSQL), sleeps = [1, 3, 5]\<rparr>) \<and>
   sum_list (sleeps (snd (SetGauge all_prepared ''temp'' (Some 5)
     \<lparr>relation = Some [], script = replicate 3 (Some (Err (NetOpError ''connection reset''))),
      trace = [], sleeps = []\<rparr>))) = 9"
  using persistent_fault_exhausts_schedule
    [of "\<lparr>relation = Some [], script = replicate 3 (Some (Err (NetOpError ''connection reset''))),
          trace = [], sleeps = []\<rparr>"
        "Err (NetOpError ''connection reset'')" "Err (NetOpError ''connection reset'')"
        "Err (NetOpError ''connection reset'')" "[]" "''temp''" "Some 5"]
  by (simp add: parseRetriableError_def numeral_3_eq_3)

subsection \<open>Attempts that end the operation\<close>

lemma retry_range_settles:
  assumes faulty: "\<And>val w e fs. script w = Some e # fs \<Longrightarrow>
            attempt val w = (Returned (val, Some e), w\<lparr>script := fs, trace := trace w @ [c]\<rparr>)"
  shows "script w = map Some es @ rest \<Longrightarrow> \<forall>e\<in>set es. fst (parseRetriableError (Some e)) \<Longrightarrow>
         length es < length sched \<Longrightarrow>
         attempt val (w\<lparr>script := rest, trace := trace w @ replicate (length es) c,
                         sleeps := sleeps w @ take (length es) sched\<rparr>) = (Returned r, w') \<Longrightarrow>
         \<not> fst (parseRetriableError (snd r)) \<Longrightarrow>
         retry_range sched attempt (val, err0) w = (Returned r, w')"
proof (induction sched arbitrary: es w err0)
  case Nil
  then show ?case by simp
next
  case (Cons t ts)
  show ?case
  proof (cases es)
    case Nil
    with Cons.prems have "rest = script w" by simp
    then have "w\<lparr>script := rest\<rparr> = w" by simp
    with Cons.prems Nil have "attempt val w = (Returned r, w')" by simp
    with Cons.prems show ?thesis by simp
  next
    case (Cons e es')
    with Cons.prems have sc: "script w = Some e # (map Some es' @ rest)" by simp
    let ?w1 = "w\<lparr>script := map Some es' @ rest, trace := trace w @ [c]\<rparr>"
    have a: "attempt val w = (Returned (val, Some e), ?w1)" using faulty [OF sc] .
    have r: "fst (parseRetriableError (Some e))" using Cons.prems Cons by simp
    have "retry_range ts attempt (val, Some e) (time_Sleep t ?w1) = (Returned r, w')"
    proof (rule Cons.IH [where es = es'])
      show "script (time_Sleep t ?w1) = map Some es' @ rest" by (simp add: time_Sleep_def)
      show "\<forall>e\<in>set es'. fst (parseRetriableError (Some e))" using Cons.prems Cons by simp
      show "length es' < length ts" using Cons.prems Cons by simp
      show "attempt val ((time_Sleep t ?w1)\<lparr>script := rest,
              trace := trace (time_Sleep t ?w1) @ replicate (length es') c,
              sleeps := sleeps (time_Sleep t ?w1) @ take (length es') ts\<rparr>) = (Returned r, w')"
        using Cons.prems(4) Cons by (simp add: time_Sleep_def replicate_append_same)
      show "\<not> fst (parseRetriableError (snd r))" by fact
    qed
    with a r show ?thesis by simp
  qed
qed

lemma upsert_attempt_final:
  assumes "first_call_final w"
  shows "\<exists>r w'. upsert_attempt (Some SetOrUpdateMetricSQL) n k d v u w = (Returned r, w') \<and>
           \<not> fst (parseRetriableError (snd r)) \<and>
           trace w' = trace w @ [CallStmtExec SetOrUpdateMetricSQL] \<and> sleeps w' = sleeps w \<and>
           script w' = tl (script w)"
  using assms
  by (auto simp: first_call_final_def upsert_attempt_def stmt_ExecContext_def round_trip_def
      parseRetriableError_nil dest: engine_error_fatal split: list.splits option.splits sum.splits)


lemma get_attempt_final:
  assumes "first_call_final w"
  shows "\<exists>r w'. stmt_GetContext (Some q) q k col dest n w = (Returned r, w') \<and>
           \<not> fst (parseRetriableError (snd r)) \<and>
           trace w' = trace w @ [CallStmtGet q] \<and> sleeps w' = sleeps w \<and>
           script w' = tl (script w)"
  using assms
  by (auto simp: first_call_final_def stmt_GetContext_def round_trip_def parseRetriableError_def
      undefined_table_def ErrNoRows_def IsConnectionException_def
      split: list.splits option.splits)

lemma select_attempt_final:
  assumes "first_call_final w"
  shows "\<exists>r w'. select_attempt dest w = (Returned r, w') \<and>
           \<not> fst (parseRetriableError (snd r)) \<and>
           trace w' = trace w @ [CallSelect SelectAllSQL] \<and> sleeps w' = sleeps w \<and>
           script w' = tl (script w)"
  using assms
  by (auto simp: first_call_final_def select_attempt_def db_SelectContext_all_def round_trip_def
      parseRetriableError_def undefined_table_def IsConnectionException_def
      split: list.splits option.splits)

lemma retry_settles_after:
  assumes faulty: "\<And>val w e fs. script w = Some e # fs \<Longrightarrow>
            attempt val w = (Returned (val, Some e), w\<lparr>script := fs, trace := trace w @ [c]\<rparr>)"
    and final: "\<And>val w. first_call_final w \<Longrightarrow>
            \<exists>r w'. attempt val w = (Returned r, w') \<and> \<not> fst (parseRetriableError (snd r)) \<and>
              trace w' = trace w @ [c] \<and> sleeps w' = sleeps w \<and> script w' = tl (script w)"
    and sc: "script w = map Some es @ rest"
    and es: "\<forall>e\<in>set es. fst (parseRetriableError (Some e))"
    and len: "length es < 3"
    and rest: "rest = [] \<or> \<not> fst (parseRetriableError (hd rest))"
  shows "retry_range maximumNumberOfRetries attempt (val, err0) w =
           attempt val (after_faults (length es) c w) \<and>
         trace (snd (attempt val (after_faults (length es) c w))) =
           trace w @ replicate (Suc (length es)) c \<and>
         sleeps (snd (attempt val (after_faults (length es) c w))) =
           sleeps w @ take (length es) maximumNumberOfRetries"
proof -
  let ?wk = "w\<lparr>script := rest, trace := trace w @ replicate (length es) c,
                sleeps := sleeps w @ take (length es) maximumNumberOfRetries\<rparr>"
  have wk: "after_faults (length es) c w = ?wk"
    using sc by (simp add: after_faults_def)
  have "first_call_final ?wk"
    using rest by (auto simp: first_call_final_def split: list.splits)
  from final [OF this, of val] obtain r w' where
    a: "attempt val ?wk = (Returned r, w')" and nr: "\<not> fst (parseRetriableError (snd r))"
    and tr: "trace w' = trace ?wk @ [c]" and sl: "sleeps w' = sleeps ?wk"
    by blast
  have "retry_range maximumNumberOfRetries attempt (val, err0) w = (Returned r, w')"
    using sc es len a nr
    by (intro retry_range_settles [OF faulty, where es = es and rest = rest])
       (simp_all add: maximumNumberOfRetries_def)
  with a tr sl wk show ?thesis by (simp add: replicate_append_same)
qed

text \<open>
  C2.  An attempt that returns nil or an error the classifier does not mark retriable
  ends the operation: after \<open>length es\<close> retriable faults (none, one or two) the
  operation returns what this attempt returns, in the world this attempt leaves.  It has
  made one call more than there were faults and slept only after the faults, so an
  operation whose first attempt is final makes exactly one call and never sleeps.
\<close>

theorem non_retriable_attempt_ends_operation:
  assumes "script w = map Some es @ rest"
    and "\<forall>e\<in>set es. fst (parseRetriableError (Some e))"
    and "length es < 3"
    and "rest = [] \<or> \<not> fst (parseRetriableError (hd rest))"
  shows
    "SetGauge all_prepared n v w =
       only_err (upsert_attempt (Some SetOrUpdateMetricSQL) n ''gauge'' (Some 0) v ()
         (after_faults (length es) (CallStmtExec SetOrUpdateMetricSQL) w)) \<and>
     trace (snd (SetGauge all_prepared n v w)) =
       trace w @ replicate (Suc (length es)) (CallStmtExec SetOrUpdateMetricSQL) \<and>
     sleeps (snd (SetGauge all_prepared n v w)) = sleeps w @ take (length es) maximumNumberOfRetries \<and>
     AddCounter all_prepared n d w =
       only_err (upsert_attempt (Some SetOrUpdateMetricSQL) n ''counter'' d (Some 0) ()
         (after_faults (length es) (CallStmtExec SetOrUpdateMetricSQL) w)) \<and>
     trace (snd (AddCounter all_prepared n d w)) =
       trace w @ replicate (Suc (length es)) (CallStmtExec SetOrUpdateMetricSQL) \<and>
     sleeps (snd (AddCounter all_prepared n d w)) = sleeps w @ take (length es) maximumNumberOfRetries \<and>
     GetGauge all_prepared n w =
       stmt_GetContext (Some GetGaugeMetricSQL) GetGaugeMetricSQL ''gauge'' row_value None n
         (after_faults (length es) (CallStmtGet GetGaugeMetricSQL) w) \<and>
     trace (snd (GetGauge all_prepared n w)) =
       trace w @ replicate (Suc (length es)) (CallStmtGet GetGaugeMetricSQL) \<and>
     sleeps (snd (GetGauge all_prepared n w)) = sleeps w @ take (length es) maximumNumberOfRetries \<and>
     GetCounter all_prepared n w =
       stmt_GetContext (Some GetCounterMetricSQL) GetCounterMetricSQL ''counter'' row_delta None n
         (after_faults (length es) (CallStmtGet GetCounterMetricSQL) w) \<and>
     trace (snd (GetCounter all_prepared n w)) =
       trace w @ replicate (Suc (length es)) (CallStmtGet GetCounterMetricSQL) \<and>
     sleeps (snd (GetCounter all_prepared n w)) = sleeps w @ take (length es) maximumNumberOfRetries \<and>
     GetAll dbStorage w =
       select_attempt [] (after_faults (length es) (CallSelect SelectAllSQL) w) \<and>
     trace (snd (GetAll dbStorage w)) =
       trace w @ replicate (Suc (length es)) (CallSelect SelectAllSQL) \<and>
     sleeps (snd (GetAll dbStorage w)) = sleeps w @ take (length es) maximumNumberOfRetries"
proof -
  let ?sg = "upsert_attempt (Some SetOrUpdateMetricSQL) n ''gauge'' (Some 0) v"
  let ?ac = "upsert_attempt (Some SetOrUpdateMetricSQL) n ''counter'' d (Some 0)"
  let ?gg = "\<lambda>val. stmt_GetContext (Some GetGaugeMetricSQL) GetGaugeMetricSQL ''gauge'' row_value val n"
  let ?gc = "\<lambda>val. stmt_GetContext (Some GetCounterMetricSQL) GetCounterMetricSQL ''counter'' row_delta val n"
  let ?k = "length es"
  have sg: "retry_range maximumNumberOfRetries ?sg ((), None) w =
        ?sg () (after_faults ?k (CallStmtExec SetOrUpdateMetricSQL) w) \<and>
      trace (snd (?sg () (after_faults ?k (CallStmtExec SetOrUpdateMetricSQL) w))) =
        trace w @ replicate (Suc ?k) (CallStmtExec SetOrUpdateMetricSQL) \<and>
      sleeps (snd (?sg () (after_faults ?k (CallStmtExec SetOrUpdateMetricSQL) w))) =
        sleeps w @ take ?k maximumNumberOfRetries"
    by (rule retry_settles_after [OF upsert_attempt_fault upsert_attempt_final assms])
  have ac: "retry_range maximumNumberOfRetries ?ac ((), None) w =
        ?ac () (after_faults ?k (CallStmtExec SetOrUpdateMetricSQL) w) \<and>
      trace (snd (?ac () (after_faults ?k (CallStmtExec SetOrUpdateMetricSQL) w))) =
        trace w @ replicate (Suc ?k) (CallStmtExec SetOrUpdateMetricSQL) \<and>
      sleeps (snd (?ac () (after_faults ?k (CallStmtExec SetOrUpdateMetricSQL) w))) =
        sleeps w @ take ?k maximumNumberOfRetries"
    by (rule retry_settles_after [OF upsert_attempt_fault upsert_attempt_final assms])
  have gg: "retry_range maximumNumberOfRetries ?gg (None, None) w =
        ?gg None (after_faults ?k (CallStmtGet GetGaugeMetricSQL) w) \<and>
      trace (snd (?gg None (after_faults ?k (CallStmtGet GetGaugeMetricSQL) w))) =
        trace w @ replicate (Suc ?k) (CallStmtGet GetGaugeMetricSQL) \<and>
      sleeps (snd (?gg None (after_faults ?k (CallStmtGet GetGaugeMetricSQL) w))) =
        sleeps w @ take ?k maximumNumberOfRetries"
    by (rule retry_settles_after [OF get_attempt_fault get_attempt_final assms])
  have gc: "retry_range maximumNumberOfRetries ?gc (None, None) w =
        ?gc None (after_faults ?k (CallStmtGet GetCounterMetricSQL) w) \<and>
      trace (snd (?gc None (after_faults ?k (CallStmtGet GetCounterMetricSQL) w))) =
        trace w @ replicate (Suc ?k) (CallStmtGet GetCounterMetricSQL) \<and>
      sleeps (snd (?gc None (after_faults ?k (CallStmtGet GetCounterMetricSQL) w))) =
        sleeps w @ take ?k maximumNumberOfRetries"
    by (rule retry_settles_after [OF get_attempt_fault get_attempt_final assms])
  have ga: "retry_range maximumNumberOfRetries select_attempt ([], None) w =
        select_attempt [] (after_faults ?k (CallSelect SelectAllSQL) w) \<and>
      trace (snd (select_attempt [] (after_faults ?k (CallSelect SelectAllSQL) w))) =
        trace w @ replicate (Suc ?k) (CallSelect SelectAllSQL) \<and>
      sleeps (snd (select_attempt [] (after_faults ?k (CallSelect SelectAllSQL) w))) =
        sleeps w @ take ?k maximumNumberOfRetries"
    by (rule retry_settles_after [OF select_attempt_fault select_attempt_final assms])
  have snd_only: "\<And>x. snd (only_err x) = snd x"
    by (simp add: only_err_def split: prod.splits outcome.splits)
  show ?thesis
    using sg ac gg gc ga
    by (simp add: SetGauge_def AddCounter_def GetGauge_def GetCounter_def GetAll_def
        all_prepared_def snd_only)
qed

text \<open>
  A unique violation reported to the first attempt of AddCounter: one call, no sleep, the
  violation returned.
\<close>

theorem non_retriable_attempt_ends_operation_witness:
  "AddCounter all_prepared ''hits'' (Some 1)
     \<lparr>relation = Some [], script = [Some (Err (PgError ''23505''))], trace = [], sleeps = []\<rparr> =
   (Returned (Some (Err (PgError ''23505''))),
    \<lparr>relation = Some [], script = [], trace = [CallStmtExec SetOrUpdateMetricSQL], sleeps = []\<rparr>)"
  using non_retriable_attempt_ends_operation
    [where w = "\<lparr>relation = Some [], script = [Some (Err (PgError ''23505''))], trace = [], sleeps = []\<rparr>"
       and es = "[]" and rest = "[Some (Err (PgError ''23505''))]" and n = "''hits''" and d = "Some 1"]
  by (simp add: parseRetriableError_def IsConnectionException_def after_faults_def
      upsert_attempt_def stmt_ExecContext_def round_trip_def only_err_def)

subsection \<open>Construction\<close>

lemma Ping_fault:
  "script w = f # fs \<Longrightarrow> Ping dbStorage w = (f, w\<lparr>script := fs, trace := trace w @ [CallPing]\<rparr>)"
  by (simp add: Ping_def db_PingContext_def round_trip_fault)

lemma prepare_fault:
  "script w = Some e # fs \<Longrightarrow>
   db_PrepareNamedContext q w = ((None, Some e), w\<lparr>script := fs, trace := trace w @ [CallPrepare q]\<rparr>)"
  by (simp add: db_PrepareNamedContext_def round_trip_fault)

lemma prepare_through:
  "script w = None # fs \<Longrightarrow> relation w = Some t \<Longrightarrow>
   db_PrepareNamedContext q w = ((Some q, None), w\<lparr>script := fs, trace := trace w @ [CallPrepare q]\<rparr>)"
  by (simp add: db_PrepareNamedContext_def round_trip_fault)

lemma prepare_quiet:
  "script w = [] \<Longrightarrow> relation w = Some t \<Longrightarrow>
   db_PrepareNamedContext q w = ((Some q, None), w\<lparr>trace := trace w @ [CallPrepare q]\<rparr>)"
  by (simp add: db_PrepareNamedContext_def round_trip_through)

lemma buildPrepares_range_fault:
  "set keys \<subseteq> fst ` set preparesData \<Longrightarrow> relation w = Some t \<Longrightarrow>
   script w = replicate k None @ Some e # fs \<Longrightarrow> k < length keys \<Longrightarrow>
   fst (fst (buildPrepares_range keys dbStorage w)) = Some e"
proof (induction keys arbitrary: k dbStorage w)
  case Nil
  then show ?case by simp
next
  case (Cons key keys)
  from Cons.prems(1) obtain q where q: "map_of preparesData key = Some q"
    by (auto simp: preparesData_def)
  show ?case
  proof (cases k)
    case 0
    with Cons.prems have "script w = Some e # fs" by simp
    from prepare_fault [OF this] q show ?thesis by simp
  next
    case (Suc k')
    with Cons.prems have sc: "script w = None # (replicate k' None @ Some e # fs)" by simp
    let ?w' = "w\<lparr>script := replicate k' None @ Some e # fs, trace := trace w @ [CallPrepare q]\<rparr>"
    have p: "db_PrepareNamedContext q w = ((Some q, None), ?w')"
      using prepare_through [OF sc Cons.prems(2)] .
    have "\<And>st. fst (fst (buildPrepares_range keys st ?w')) = Some e"
      using Cons.prems Suc by (intro Cons.IH [where k = k']) auto
    with p q show ?thesis by simp
  qed
qed

lemma buildPrepares_range_quiet:
  "set keys \<subseteq> fst ` set preparesData \<Longrightarrow> relation w = Some t \<Longrightarrow> script w = [] \<Longrightarrow>
   (\<exists>st' w'. buildPrepares_range keys dbStorage w = ((None, st'), w') \<and>
      relation w' = relation w \<and> script w' = [] \<and> sleeps w' = sleeps w \<and>
      getGaugeMetric st' =
        (if ''getGaugeMetric'' \<in> set keys then Some GetGaugeMetricSQL else getGaugeMetric dbStorage) \<and>
      getCounterMetric st' =
        (if ''getCounterMetric'' \<in> set keys then Some GetCounterMetricSQL else getCounterMetric dbStorage) \<and>
      setOrUpdateMetric st' =
        (if ''setOrUpdateMetric'' \<in> set keys then Some SetOrUpdateMetricSQL else setOrUpdateMetric dbStorage))"
proof (induction keys arbitrary: dbStorage w)
  case Nil
  then show ?case by simp
next
  case (Cons key keys)
  from Cons.prems(1) have key: "key = ''getGaugeMetric'' \<or> key = ''getCounterMetric'' \<or> key = ''setOrUpdateMetric''"
    by (auto simp: preparesData_def)
  then obtain q where q: "map_of preparesData key = Some q"
    by (auto simp: preparesData_def)
  let ?w' = "w\<lparr>trace := trace w @ [CallPrepare q]\<rparr>"
  have p: "db_PrepareNamedContext q w = ((Some q, None), ?w')"
    using prepare_quiet [OF Cons.prems(3) Cons.prems(2)] .
  have ih: "\<And>st. \<exists>st' w'. buildPrepares_range keys st ?w' = ((None, st'), w') \<and>
      relation w' = relation ?w' \<and> script w' = [] \<and> sleeps w' = sleeps ?w' \<and>
      getGaugeMetric st' =
        (if ''getGaugeMetric'' \<in> set keys then Some GetGaugeMetricSQL else getGaugeMetric st) \<and>
      getCounterMetric st' =
        (if ''getCounterMetric'' \<in> set keys then Some GetCounterMetricSQL else getCounterMetric st) \<and>
      setOrUpdateMetric st' =
        (if ''setOrUpdateMetric'' \<in> set keys then Some SetOrUpdateMetricSQL else setOrUpdateMetric st)"
    using Cons.prems by (intro Cons.IH) auto
  from key show ?case
  proof (elim disjE)
    assume k: "key = ''getGaugeMetric''"
    with q have "q = GetGaugeMetricSQL" by (simp add: preparesData_def)
    with k p q ih [of "dbStorage\<lparr>getGaugeMetric := Some GetGaugeMetricSQL\<rparr>"] show ?thesis
      by auto
  next
    assume k: "key = ''getCounterMetric''"
    with q have "q = GetCounterMetricSQL" by (simp add: preparesData_def)
    with k p q ih [of "dbStorage\<lparr>getCounterMetric := Some GetCounterMetricSQL\<rparr>"] show ?thesis
      by auto
  next
    assume k: "key = ''setOrUpdateMetric''"
    with q have "q = SetOrUpdateMetricSQL" by (simp add: preparesData_def)
    with k p q ih [of "dbStorage\<lparr>setOrUpdateMetric := Some SetOrUpdateMetricSQL\<rparr>"] show ?thesis
      by auto
  qed
qed


lemma schema_fault:
  "script w = Some e # fs \<Longrightarrow>
   db_ExecContext_schema w = (Some e, w\<lparr>script := fs, trace := trace w @ [CallExec Schema]\<rparr>)"
  by (simp add: db_ExecContext_schema_def round_trip_fault)

lemma schema_through:
  "script w = None # fs \<Longrightarrow>
   db_ExecContext_schema w =
     (None, w\<lparr>script := fs, trace := trace w @ [CallExec Schema],
              relation := Some (case relation w of None \<Rightarrow> [] | Some t \<Rightarrow> t)\<rparr>)"
  by (simp add: db_ExecContext_schema_def round_trip_fault split: option.splits)

lemma three_keys_length:
  assumes "set keys = {''getGaugeMetric'', ''getCounterMetric'', ''setOrUpdateMetric''}"
  shows "3 \<le> length keys"
proof -
  have "card (set keys) = 3" unfolding assms by simp
  with card_length [of keys] show ?thesis by simp
qed

text \<open>
  C7.  Construction, whatever order the runtime ranges over the three statements in.
  When the ping fails, \<open>New\<close> returns a store with no error after that one call: no
  DDL, no statement compiled, the three handles nil.  When the ping gets through and the
  DDL fails, or the DDL gets through and one of the three compilations fails (after
  \<open>k\<close> that went well), \<open>New\<close> returns that error and no store.
\<close>

theorem New_outcomes:
  assumes keys: "set keys = {''getGaugeMetric'', ''getCounterMetric'', ''setOrUpdateMetric''}"
  shows
    "(script w = Some e # fs \<longrightarrow>
        New keys w = ((Some no_prepares, None), w\<lparr>script := fs, trace := trace w @ [CallPing]\<rparr>)) \<and>
     (script w = None # Some e # fs \<longrightarrow>
        New keys w =
          ((None, Some e), w\<lparr>script := fs, trace := trace w @ [CallPing, CallExec Schema]\<rparr>)) \<and>
     (script w = None # None # replicate k None @ Some e # fs \<and> k < 3 \<longrightarrow>
        fst (New keys w) = (None, Some e))"
proof (intro conjI impI)
  assume "script w = Some e # fs"
  then show "New keys w = ((Some no_prepares, None), w\<lparr>script := fs, trace := trace w @ [CallPing]\<rparr>)"
    by (simp add: New_def Ping_fault)
next
  assume sc: "script w = None # Some e # fs"
  let ?w1 = "w\<lparr>script := Some e # fs, trace := trace w @ [CallPing]\<rparr>"
  have "Ping no_prepares w = (None, ?w1)" using Ping_fault [OF sc] .
  moreover have "db_ExecContext_schema ?w1 =
      (Some e, ?w1\<lparr>script := fs, trace := trace ?w1 @ [CallExec Schema]\<rparr>)"
    by (rule schema_fault) simp
  ultimately show "New keys w =
      ((None, Some e), w\<lparr>script := fs, trace := trace w @ [CallPing, CallExec Schema]\<rparr>)"
    by (simp add: New_def)
next
  assume a: "script w = None # None # replicate k None @ Some e # fs \<and> k < 3"
  let ?w1 = "w\<lparr>script := None # replicate k None @ Some e # fs, trace := trace w @ [CallPing]\<rparr>"
  let ?w2 = "?w1\<lparr>script := replicate k None @ Some e # fs, trace := trace ?w1 @ [CallExec Schema],
                relation := Some (case relation ?w1 of None \<Rightarrow> [] | Some t \<Rightarrow> t)\<rparr>"
  have p: "Ping no_prepares w = (None, ?w1)" using a by (intro Ping_fault) simp
  have d: "db_ExecContext_schema ?w1 = (None, ?w2)" by (rule schema_through) simp
  have f: "fst (fst (buildPrepares_range keys no_prepares ?w2)) = Some e"
  proof (rule buildPrepares_range_fault [where k = k])
    show "set keys \<subseteq> fst ` set preparesData" using keys by (simp add: preparesData_def)
    show "relation ?w2 = Some (case relation ?w1 of None \<Rightarrow> [] | Some t \<Rightarrow> t)" by simp
    show "script ?w2 = replicate k None @ Some e # fs" by simp
    show "k < length keys" using a three_keys_length [OF keys] by simp
  qed
  obtain x st' w3 where b: "buildPrepares_range keys no_prepares ?w2 = ((x, st'), w3)"
    by (cases "buildPrepares_range keys no_prepares ?w2") auto
  with f have "x = Some e" by simp
  with p d b show "fst (New keys w) = (None, Some e)"
    by (simp add: New_def buildPrepares_def)
qed

text \<open>
  An unreachable database, a DDL refused for lack of privilege (42501), and a connection
  lost while the second statement is compiled.
\<close>

theorem New_outcomes_witness:
  "New [''getGaugeMetric'', ''setOrUpdateMetric'', ''getCounterMetric'']
     \<lparr>relation = None, script = [Some (Err (NetOpError ''dial tcp: connection refused''))],
      trace = [], sleeps = []\<rparr> =
   ((Some no_prepares, None), \<lparr>relation = None, script = [], trace = [CallPing], sleeps = []\<rparr>) \<and>
   New [''getGaugeMetric'', ''setOrUpdateMetric'', ''getCounterMetric'']
     \<lparr>relation = None, script = [None, Some (Err (PgError ''42501''))], trace = [], sleeps = []\<rparr> =
   ((None, Some (Err (PgError ''42501''))),
    \<lparr>relation = None, script = [], trace = [CallPing, CallExec Schema], sleeps = []\<rparr>) \<and>
   fst (New [''getGaugeMetric'', ''setOrUpdateMetric'', ''getCounterMetric'']
     \<lparr>relation = None, script = [None, None, None, Some (Err (PgError ''08006''))],
      trace = [], sleeps = []\<rparr>) =
   (None, Some (Err (PgError ''08006'')))"
proof -
  let ?keys = "[''getGaugeMetric'', ''setOrUpdateMetric'', ''getCounterMetric'']"
  have k: "set ?keys = {''getGaugeMetric'', ''getCounterMetric'', ''setOrUpdateMetric''}"
    by auto
  show ?thesis
    using New_outcomes [OF k, where w = "\<lparr>relation = None,
          script = [Some (Err (NetOpError ''dial tcp: connection refused''))], trace = [], sleeps = []\<rparr>"
        and e = "Err (NetOpError ''dial tcp: connection refused'')" and fs = "[]"]
      New_outcomes [OF k, where w = "\<lparr>relation = None,
          script = [None, Some (Err (PgError ''42501''))], trace = [], sleeps = []\<rparr>"
        and e = "Err (PgError ''42501'')" and fs = "[]"]
      New_outcomes [OF k, where w = "\<lparr>relation = None,
          script = [None, None, None, Some (Err (PgError ''08006''))], trace = [], sleeps = []\<rparr>"
        and e = "Err (PgError ''08006'')" and fs = "[]" and k = 1]
    by simp
qed

text \<open>With nothing in the way, \<open>New\<close> returns the store with all three statements.\<close>

lemma New_reachable:
  assumes keys: "set keys = {''getGaugeMetric'', ''getCounterMetric'', ''setOrUpdateMetric''}"
    and "script w = []"
  shows "fst (New keys w) = (Some all_prepared, None)"
proof -
  let ?w1 = "w\<lparr>trace := trace w @ [CallPing]\<rparr>"
  let ?w2 = "?w1\<lparr>trace := trace ?w1 @ [CallExec Schema],
                relation := Some (case relation ?w1 of None \<Rightarrow> [] | Some t \<Rightarrow> t)\<rparr>"
  have p: "Ping no_prepares w = (None, ?w1)"
    using assms by (simp add: Ping_def db_PingContext_def round_trip_through)
  have d: "db_ExecContext_schema ?w1 = (None, ?w2)"
    using assms by (simp add: db_ExecContext_schema_def round_trip_through split: option.splits)
  have "set keys \<subseteq> fst ` set preparesData" using keys by (simp add: preparesData_def)
  from buildPrepares_range_quiet [OF this, of ?w2 _ no_prepares] assms
  obtain st' w' where b: "buildPrepares_range keys no_prepares ?w2 = ((None, st'), w')"
    and "getGaugeMetric st' = Some GetGaugeMetricSQL"
    and "getCounterMetric st' = Some GetCounterMetricSQL"
    and "setOrUpdateMetric st' = Some SetOrUpdateMetricSQL"
    by (auto simp: keys)
  then have "st' = all_prepared" by (simp add: all_prepared_def)
  with p d b show ?thesis by (simp add: New_def buildPrepares_def)
qed

text \<open>
  C8.  A store built while the database is unreachable holds three nil statement handles,
  and \<open>SetGauge\<close> on it calls \<open>ExecContext\<close> on the nil \<open>setOrUpdateMetric\<close>: the
  method dereferences its receiver and the call panics at the first attempt, in whatever
  world, before any call to the server.  It does not return an error, and it makes no
  second attempt.
\<close>

theorem degraded_store_panics:
  "New keys (w\<lparr>script := Some e # fs\<rparr>) =
     ((Some no_prepares, None), w\<lparr>script := fs, trace := trace w @ [CallPing]\<rparr>) \<and>
   SetGauge no_prepares n v w' = (Panic, w')"
  by (simp add: New_def Ping_fault SetGauge_def no_prepares_def maximumNumberOfRetries_def
      upsert_attempt_def stmt_ExecContext_def only_err_def)

theorem degraded_store_panics_witness:
  "New [''getGaugeMetric'', ''getCounterMetric'', ''setOrUpdateMetric'']
     \<lparr>relation = None, script = [Some (Err (NetOpError ''dial tcp: connection refused''))],
      trace = [], sleeps = []\<rparr> =
   ((Some no_prepares, None), \<lparr>relation = None, script = [], trace = [CallPing], sleeps = []\<rparr>) \<and>
   SetGauge no_prepares ''temp'' (Some 5)
     \<lparr>relation = None, script = [], trace = [CallPing], sleeps = []\<rparr> =
   (Panic, \<lparr>relation = None, script = [], trace = [CallPing], sleeps = []\<rparr>)"
  using degraded_store_panics
    [where w = "\<lparr>relation = None, script = [], trace = [], sleeps = []\<rparr>"
       and e = "Err (NetOpError ''dial tcp: connection refused'')" and fs = "[]"
       and w' = "\<lparr>relation = None, script = [], trace = [CallPing], sleeps = []\<rparr>"
       and n = "''temp''" and v = "Some 5"
       and keys = "[''getGaugeMetric'', ''getCounterMetric'', ''setOrUpdateMetric'']"]
  by simp

subsection \<open>Reads of a name without a row\<close>

text \<open>
  C9, as the claim has it, fails: a read of a name that was never written returns no
  value, but it returns it with the error \<open>sql.ErrNoRows\<close>, not with a nil error.
\<close>

theorem absent_read_returns_error_counterexample:
  "fst (GetGauge all_prepared ''unknown''
          \<lparr>relation = Some [], script = [], trace = [], sleeps = []\<rparr>) =
     Returned (None, Some ErrNoRows) \<and>
   fst (GetGauge all_prepared ''unknown''
          \<lparr>relation = Some [], script = [], trace = [], sleeps = []\<rparr>) \<noteq>
     Returned (None, None)"
  by (simp add: GetGauge_def all_prepared_def maximumNumberOfRetries_def stmt_GetContext_def
      round_trip_def find_row_def parseRetriableError_def ErrNoRows_def)

text \<open>
  C9, amended.  On an existing table and with the call getting through, GetGauge and
  GetCounter of a name that has no row of their kind return no value together with the
  error \<open>sql.ErrNoRows\<close>, after exactly one call and without a sleep; the classifier
  does not mark that error retriable.
\<close>

theorem never_written_read:
  assumes "relation w = Some t" and "script w = [] \<or> hd (script w) = None"
  shows
    "(find_row n ''gauge'' t = None \<longrightarrow>
        GetGauge all_prepared n w =
          (Returned (None, Some ErrNoRows),
           w\<lparr>script := tl (script w), trace := trace w @ [CallStmtGet GetGaugeMetricSQL]\<rparr>)) \<and>
     (find_row n ''counter'' t = None \<longrightarrow>
        GetCounter all_prepared n w =
          (Returned (None, Some ErrNoRows),
           w\<lparr>script := tl (script w), trace := trace w @ [CallStmtGet GetCounterMetricSQL]\<rparr>)) \<and>
     \<not> fst (parseRetriableError (Some ErrNoRows))"
  using assms
  by (cases "script w")
     (auto simp: GetGauge_def GetCounter_def all_prepared_def maximumNumberOfRetries_def
      stmt_GetContext_def round_trip_def parseRetriableError_def ErrNoRows_def)


theorem never_written_read_witness:
  "GetGauge all_prepared ''unknown''
     \<lparr>relation = Some [\<lparr>row_name = ''temp'', row_mtype = ''gauge'', row_delta = 0, row_value = 5\<rparr>],
      script = [], trace = [], sleeps = []\<rparr> =
   (Returned (None, Some ErrNoRows),
    \<lparr>relation = Some [\<lparr>row_name = ''temp'', row_mtype = ''gauge'', row_delta = 0, row_value = 5\<rparr>],
     script = [], trace = [CallStmtGet GetGaugeMetricSQL], sleeps = []\<rparr>) \<and>
   GetCounter all_prepared ''temp''
     \<lparr>relation = Some [\<lparr>row_name = ''temp'', row_mtype = ''gauge'', row_delta = 0, row_value = 5\<rparr>],
      script = [], trace = [], sleeps = []\<rparr> =
   (Returned (None, Some ErrNoRows),
    \<lparr>relation = Some [\<lparr>row_name = ''temp'', row_mtype = ''gauge'', row_delta = 0, row_value = 5\<rparr>],
     script = [], trace = [CallStmtGet GetCounterMetricSQL], sleeps = []\<rparr>)"
  using never_written_read
    [where w = "\<lparr>relation = Some [\<lparr>row_name = ''temp'', row_mtype = ''gauge'', row_delta = 0, row_value = 5\<rparr>],
          script = [], trace = [], sleeps = []\<rparr>"
       and t = "[\<lparr>row_name = ''temp'', row_mtype = ''gauge'', row_delta = 0, row_value = 5\<rparr>]"
       and n = "''unknown''"]
    never_written_read
    [where w = "\<lparr>relation = Some [\<lparr>row_name = ''temp'', row_mtype = ''gauge'', row_delta = 0, row_value = 5\<rparr>],
          script = [], trace = [], sleeps = []\<rparr>"
       and t = "[\<lparr>row_name = ''temp'', row_mtype = ''gauge'', row_delta = 0, row_value = 5\<rparr>]"
       and n = "''temp''"]
  by (simp add: find_row_def)

end
